theory Spec2Isabelle
  imports Main
begin

section \<open>Tokens and hole configurations\<close>

text \<open>The types and methods of \<^verbatim>\<open>fixer_v2/query/type.go\<close>, in the order of the file.\<close>

text \<open>
  \<^verbatim>\<open>type TokenType int\<close> with its six named constants, in the order of the
  \<^verbatim>\<open>iota\<close> block.
\<close>

datatype TokenType =
    TokenText
  | TokenHole
  | TokenLBrace
  | TokenRBrace
  | TokenWhitespace
  | TokenEOF

text \<open>
  Modelled from the spec: the declarations of \<^verbatim>\<open>HoleType\<close> and \<^verbatim>\<open>Quantifier\<close> and
  of their constants are not in type.go, which only uses \<^verbatim>\<open>HoleAny\<close> and \<^verbatim>\<open>QuantNone\<close>
  and compares values of the two types with \<^verbatim>\<open>==\<close>. The spec gives the capture kind
  "any-span, the unconstrained default" and reserves room for refined kinds; it gives the
  quantifiers "exactly-one (the default, written as a single-bracket hole)" and "block".
  \<open>HoleAny\<close> is the any-span kind and \<open>QuantNone\<close> the exactly-one quantifier.
\<close>

datatype HoleType = HoleAny | HoleRefined nat

datatype Quantifier = QuantNone | QuantBlock

text \<open>\<^verbatim>\<open>type HoleConfig struct { Type HoleType; Quantifier Quantifier; Name string }\<close>\<close>

record HoleConfig =
  Type :: HoleType
  Quantifier :: Quantifier
  Name :: string

text \<open>
  \<^verbatim>\<open>type Token struct\<close>. \<^verbatim>\<open>Position\<close> is a Go \<^verbatim>\<open>int\<close> that is only stored and
  compared, never computed with, so it is an \<open>int\<close> here. The field
  \<^verbatim>\<open>HoleConfig *HoleConfig\<close> is a pointer that may be nil: \<open>None\<close> is nil, \<open>Some c\<close>
  a pointer to a configuration whose fields are \<open>c\<close>.
\<close>

record Token =
  Type :: TokenType
  Value :: string
  Position :: int
  HoleConfig :: "HoleConfig option"

text \<open>\<^verbatim>\<open>func (h *HoleConfig) Equal(other HoleConfig) bool\<close>\<close>

definition HoleConfig_Equal :: "HoleConfig \<Rightarrow> HoleConfig \<Rightarrow> bool" where
  "HoleConfig_Equal h other =
     (Name h = Name other \<and>
      HoleConfig.Type h = HoleConfig.Type other \<and>
      Quantifier h = Quantifier other)"

text \<open>
  \<^verbatim>\<open>func (t *Token) Equal(other Token) bool\<close>, with its three early returns in the
  order of the source.
\<close>

definition Token_Equal :: "Token \<Rightarrow> Token \<Rightarrow> bool" where
  "Token_Equal t other =
     (if Token.Type t \<noteq> Token.Type other \<or> Value t \<noteq> Value other
         \<or> Position t \<noteq> Position other then False
      else if HoleConfig t = None \<and> HoleConfig other = None then True
      else if HoleConfig t = None \<or> HoleConfig other = None then False
      else HoleConfig_Equal (the (HoleConfig t)) (the (HoleConfig other)))"

section \<open>Nodes\<close>

datatype NodeType = NodePattern | NodeHole | NodeText | NodeBlock

text \<open>
  The four structs that implement the interface \<^verbatim>\<open>Node\<close>. A value of this type is a
  non-nil pointer to one of them: \<^verbatim>\<open>*PatternNode\<close> with \<^verbatim>\<open>Children\<close> and \<^verbatim>\<open>pos\<close>,
  \<^verbatim>\<open>*HoleNode\<close> with \<^verbatim>\<open>Config\<close> and \<^verbatim>\<open>pos\<close>, \<^verbatim>\<open>*TextNode\<close> with \<^verbatim>\<open>Content\<close> and
  \<^verbatim>\<open>pos\<close>, \<^verbatim>\<open>*BlockNode\<close> with \<^verbatim>\<open>Content\<close> and \<^verbatim>\<open>pos\<close>. The two \<^verbatim>\<open>Content\<close> fields
  have different types, so the one of the block is \<open>BlockContent\<close>.
\<close>

datatype Node =
    PatternNode (Children: "Node list") (pos: int)
  | HoleNode (Config: HoleConfig) (pos: int)
  | TextNode (Content: string) (pos: int)
  | BlockNode (BlockContent: "Node list") (pos: int)

text \<open>
  The run-time failures of the code. The single-value type assertion
  \<^verbatim>\<open>other.(*TextNode)\<close> panics when the dynamic type of \<^verbatim>\<open>other\<close> is not
  \<^verbatim>\<open>*TextNode\<close>; an index or slice expression panics out of range; a field read
  through a nil pointer panics; a recursion deeper than the stack allows is fatal.
\<close>

datatype panic =
    InterfaceConversion
  | IndexOutOfRange
  | SliceBoundsOutOfRange
  | NilDereference
  | StackOverflow

text \<open>\<^verbatim>\<open>Type()\<close> of the four structs, dispatched on the dynamic type.\<close>

fun Node_Type :: "Node \<Rightarrow> NodeType" where
  "Node_Type (PatternNode _ _) = NodePattern"
| "Node_Type (HoleNode _ _) = NodeHole"
| "Node_Type (TextNode _ _) = NodeText"
| "Node_Type (BlockNode _ _) = NodeBlock"

text \<open>\<^verbatim>\<open>Position()\<close> returns the field \<^verbatim>\<open>pos\<close> of each struct.\<close>

definition Node_Position :: "Node \<Rightarrow> int" where
  "Node_Position n = pos n"

text \<open>\<^verbatim>\<open>func (h *HoleNode) Name() string { return h.Config.Name }\<close>\<close>

definition HoleNode_Name :: "HoleConfig \<Rightarrow> int \<Rightarrow> string" where
  "HoleNode_Name h_Config h_pos = Name h_Config"

text \<open>\<^verbatim>\<open>func NewHoleNode(name string, pos int) *HoleNode\<close>\<close>

definition NewHoleNode :: "string \<Rightarrow> int \<Rightarrow> Node" where
  "NewHoleNode name p =
     HoleNode \<lparr>HoleConfig.Type = HoleAny, Quantifier = QuantNone, Name = name\<rparr> p"

text \<open>
  The four \<^verbatim>\<open>Equal\<close> methods. Each takes the fields of its receiver and the argument
  \<^verbatim>\<open>other\<close>. The comma-ok assertions \<^verbatim>\<open>_, ok := other.(*PatternNode)\<close> and
  \<^verbatim>\<open>otherHole, ok := other.(*HoleNode)\<close> never panic, so three of them return a plain
  truth value.
\<close>

definition PatternNode_Equal :: "Node list \<Rightarrow> int \<Rightarrow> Node \<Rightarrow> bool" where
  "PatternNode_Equal p_Children p_pos other =
     (case other of PatternNode _ _ \<Rightarrow> True | _ \<Rightarrow> False)"

definition HoleNode_Equal :: "HoleConfig \<Rightarrow> int \<Rightarrow> Node \<Rightarrow> bool" where
  "HoleNode_Equal h_Config h_pos other =
     (case other of
        HoleNode o_Config o_pos \<Rightarrow>
          Name h_Config = Name o_Config \<and>
          HoleConfig.Type h_Config = HoleConfig.Type o_Config \<and>
          Quantifier h_Config = Quantifier o_Config \<and>
          h_pos = o_pos
      | _ \<Rightarrow> False)"

definition TextNode_Equal :: "string \<Rightarrow> int \<Rightarrow> Node \<Rightarrow> panic + bool" where
  "TextNode_Equal t_Content t_pos other =
     (if Node_Type other \<noteq> NodeText then Inr False
      else (case other of
              TextNode o_Content _ \<Rightarrow> Inr (t_Content = o_Content)
            | _ \<Rightarrow> Inl InterfaceConversion))"

definition BlockNode_Equal :: "Node list \<Rightarrow> int \<Rightarrow> Node \<Rightarrow> bool" where
  "BlockNode_Equal b_Content b_pos other =
     (case other of BlockNode _ _ \<Rightarrow> True | _ \<Rightarrow> False)"

text \<open>
  \<^verbatim>\<open>a.Equal(b)\<close> on a value of the interface type: the method of the dynamic type of
  the receiver runs.
\<close>

fun Node_Equal :: "Node \<Rightarrow> Node \<Rightarrow> panic + bool" where
  "Node_Equal (PatternNode c p) other = Inr (PatternNode_Equal c p other)"
| "Node_Equal (HoleNode c p) other = Inr (HoleNode_Equal c p other)"
| "Node_Equal (TextNode c p) other = TextNode_Equal c p other"
| "Node_Equal (BlockNode c p) other = Inr (BlockNode_Equal c p other)"

text \<open>
  \<^verbatim>\<open>func nodesEqual(a, b []Node) bool\<close>: the length check, then the loop over the
  indices of \<^verbatim>\<open>a\<close>, reading \<^verbatim>\<open>b[i]\<close> at each.
\<close>

fun nodesEqual_loop :: "Node list \<Rightarrow> Node list \<Rightarrow> panic + bool" where
  "nodesEqual_loop [] _ = Inr True"
| "nodesEqual_loop (_ # _) [] = Inl IndexOutOfRange"
| "nodesEqual_loop (x # xs) (y # ys) =
     (case Node_Equal x y of
        Inl e \<Rightarrow> Inl e
      | Inr eq \<Rightarrow> if \<not> eq then Inr False else nodesEqual_loop xs ys)"

definition nodesEqual :: "Node list \<Rightarrow> Node list \<Rightarrow> panic + bool" where
  "nodesEqual a b =
     (if length a \<noteq> length b then Inr False else nodesEqual_loop a b)"

section \<open>The methods as operations on a store\<close>

text \<open>
  Every method has a pointer receiver, and a \<^verbatim>\<open>Node\<close> argument is an interface value
  that holds a pointer, so a method could write to the fields of its receiver, of its
  argument and of every node reachable from them. To speak about that, the same methods
  are given here over a store: an address holds at most one struct; the children of a
  pattern or block are addresses; the \<^verbatim>\<open>HoleConfig\<close> pointer of a token is an address
  or nil. An address that holds no struct of the type the pointer has stands for a nil
  pointer, and reading through it panics.
\<close>

type_synonym addr = nat

datatype object =
    TokenObj TokenType string int "addr option"
  | HoleConfigObj HoleConfig
  | PatternNodeObj "addr list" int
  | HoleNodeObj HoleConfig int
  | TextNodeObj string int
  | BlockNodeObj "addr list" int

type_synonym store = "addr \<Rightarrow> object option"

text \<open>
  A call runs from a store to its result, a value or a panic, and the store it leaves
  behind. A write to the struct at \<open>a\<close> would leave \<open>s(a \<mapsto> ob)\<close> behind.
\<close>

type_synonym 'a exec = "store \<Rightarrow> (panic + 'a) \<times> store"

definition exec_return :: "'a \<Rightarrow> 'a exec" where
  "exec_return x s = (Inr x, s)"

definition exec_panic :: "panic \<Rightarrow> 'a exec" where
  "exec_panic e s = (Inl e, s)"

definition exec_bind :: "'a exec \<Rightarrow> ('a \<Rightarrow> 'b exec) \<Rightarrow> 'b exec" where
  "exec_bind m f s = (case m s of (Inl e, s') \<Rightarrow> (Inl e, s') | (Inr x, s') \<Rightarrow> f x s')"

text \<open>Reading the struct behind a pointer.\<close>

definition load :: "addr \<Rightarrow> object exec" where
  "load a s = (case s a of None \<Rightarrow> (Inl NilDereference, s) | Some ob \<Rightarrow> (Inr ob, s))"

text \<open>
  \<^verbatim>\<open>for i, x := range xs { ... }\<close> with the variable the body updates: the body runs
  on each index and element in turn, and a panic in it ends the loop.
\<close>

primrec exec_range ::
  "(nat \<Rightarrow> 'a \<Rightarrow> 'b \<Rightarrow> 'b exec) \<Rightarrow> nat \<Rightarrow> 'a list \<Rightarrow> 'b \<Rightarrow> 'b exec" where
  "exec_range body i [] acc = exec_return acc"
| "exec_range body i (x # xs) acc =
     exec_bind (body i x acc) (exec_range body (Suc i) xs)"

text \<open>
  \<^verbatim>\<open>func (h *HoleConfig) Equal(other HoleConfig) bool\<close>: the receiver is a pointer, the
  argument a copy.
\<close>

definition HoleConfig_Equal_st :: "addr \<Rightarrow> HoleConfig \<Rightarrow> bool exec" where
  "HoleConfig_Equal_st h other =
     exec_bind (load h) (\<lambda>ob.
       case ob of
         HoleConfigObj c \<Rightarrow>
           exec_return
             (Name c = Name other \<and> HoleConfig.Type c = HoleConfig.Type other \<and>
              Quantifier c = Quantifier other)
       | _ \<Rightarrow> exec_panic NilDereference)"

text \<open>
  \<^verbatim>\<open>func (t *Token) Equal(other Token) bool\<close>: the receiver is a pointer; the argument
  is a copy of a token, given by its four fields, whose \<^verbatim>\<open>HoleConfig\<close> pointer is
  shared with the caller's token. The last line dereferences \<^verbatim>\<open>other.HoleConfig\<close>.
\<close>

definition Token_Equal_st ::
  "addr \<Rightarrow> TokenType \<Rightarrow> string \<Rightarrow> int \<Rightarrow> addr option \<Rightarrow> bool exec" where
  "Token_Equal_st t o_Type o_Value o_Position o_HoleConfig =
     exec_bind (load t) (\<lambda>ob.
       case ob of
         TokenObj t_Type t_Value t_Position t_HoleConfig \<Rightarrow>
           if t_Type \<noteq> o_Type \<or> t_Value \<noteq> o_Value \<or> t_Position \<noteq> o_Position
           then exec_return False
           else if t_HoleConfig = None \<and> o_HoleConfig = None then exec_return True
           else if t_HoleConfig = None \<or> o_HoleConfig = None then exec_return False
           else exec_bind (load (the o_HoleConfig)) (\<lambda>oc.
                  case oc of
                    HoleConfigObj c \<Rightarrow> HoleConfig_Equal_st (the t_HoleConfig) c
                  | _ \<Rightarrow> exec_panic NilDereference)
       | _ \<Rightarrow> exec_panic NilDereference)"

text \<open>
  \<^verbatim>\<open>Type()\<close>, \<^verbatim>\<open>Position()\<close> and \<^verbatim>\<open>Name()\<close>. The dynamic type of an interface
  value is read off the struct its pointer leads to.
\<close>

definition Node_Type_st :: "addr \<Rightarrow> NodeType exec" where
  "Node_Type_st n =
     exec_bind (load n) (\<lambda>ob.
       case ob of
         PatternNodeObj _ _ \<Rightarrow> exec_return NodePattern
       | HoleNodeObj _ _ \<Rightarrow> exec_return NodeHole
       | TextNodeObj _ _ \<Rightarrow> exec_return NodeText
       | BlockNodeObj _ _ \<Rightarrow> exec_return NodeBlock
       | _ \<Rightarrow> exec_panic NilDereference)"

definition Node_Position_st :: "addr \<Rightarrow> int exec" where
  "Node_Position_st n =
     exec_bind (load n) (\<lambda>ob.
       case ob of
         PatternNodeObj _ p \<Rightarrow> exec_return p
       | HoleNodeObj _ p \<Rightarrow> exec_return p
       | TextNodeObj _ p \<Rightarrow> exec_return p
       | BlockNodeObj _ p \<Rightarrow> exec_return p
       | _ \<Rightarrow> exec_panic NilDereference)"

definition HoleNode_Name_st :: "addr \<Rightarrow> string exec" where
  "HoleNode_Name_st h =
     exec_bind (load h) (\<lambda>ob.
       case ob of
         HoleNodeObj c _ \<Rightarrow> exec_return (Name c)
       | _ \<Rightarrow> exec_panic NilDereference)"

text \<open>
  The four \<^verbatim>\<open>Equal\<close> methods of the nodes. The comma-ok assertions look at the
  dynamic type of \<^verbatim>\<open>other\<close> only; \<^verbatim>\<open>HoleNode.Equal\<close> and \<^verbatim>\<open>TextNode.Equal\<close> read
  the fields of both nodes.
\<close>

definition PatternNode_Equal_st :: "addr \<Rightarrow> addr \<Rightarrow> bool exec" where
  "PatternNode_Equal_st p other =
     exec_bind (load other) (\<lambda>ob.
       exec_return (case ob of PatternNodeObj _ _ \<Rightarrow> True | _ \<Rightarrow> False))"

definition HoleNode_Equal_st :: "addr \<Rightarrow> addr \<Rightarrow> bool exec" where
  "HoleNode_Equal_st h other =
     exec_bind (load other) (\<lambda>ob.
       case ob of
         HoleNodeObj o_Config o_pos \<Rightarrow>
           exec_bind (load h) (\<lambda>hb.
             case hb of
               HoleNodeObj h_Config h_pos \<Rightarrow>
                 exec_return
                   (Name h_Config = Name o_Config \<and>
                    HoleConfig.Type h_Config = HoleConfig.Type o_Config \<and>
                    Quantifier h_Config = Quantifier o_Config \<and>
                    h_pos = o_pos)
             | _ \<Rightarrow> exec_panic NilDereference)
       | _ \<Rightarrow> exec_return False)"

definition TextNode_Equal_st :: "addr \<Rightarrow> addr \<Rightarrow> bool exec" where
  "TextNode_Equal_st t other =
     exec_bind (Node_Type_st other) (\<lambda>ty.
       if ty \<noteq> NodeText then exec_return False
       else exec_bind (load t) (\<lambda>tb.
         case tb of
           TextNodeObj t_Content _ \<Rightarrow>
             exec_bind (load other) (\<lambda>ob.
               case ob of
                 TextNodeObj o_Content _ \<Rightarrow> exec_return (t_Content = o_Content)
               | _ \<Rightarrow> exec_panic InterfaceConversion)
         | _ \<Rightarrow> exec_panic NilDereference))"

definition BlockNode_Equal_st :: "addr \<Rightarrow> addr \<Rightarrow> bool exec" where
  "BlockNode_Equal_st b other =
     exec_bind (load other) (\<lambda>ob.
       exec_return (case ob of BlockNodeObj _ _ \<Rightarrow> True | _ \<Rightarrow> False))"

definition Node_Equal_st :: "addr \<Rightarrow> addr \<Rightarrow> bool exec" where
  "Node_Equal_st n other =
     exec_bind (load n) (\<lambda>ob.
       case ob of
         PatternNodeObj _ _ \<Rightarrow> PatternNode_Equal_st n other
       | HoleNodeObj _ _ \<Rightarrow> HoleNode_Equal_st n other
       | TextNodeObj _ _ \<Rightarrow> TextNode_Equal_st n other
       | BlockNodeObj _ _ \<Rightarrow> BlockNode_Equal_st n other
       | _ \<Rightarrow> exec_panic NilDereference)"

subsection \<open>String\<close>

text \<open>
  The pieces of the standard library that \<^verbatim>\<open>String()\<close> calls: the verb \<^verbatim>\<open>%d\<close> of
  \<^verbatim>\<open>fmt.Sprintf\<close> on a length or an index, \<^verbatim>\<open>strings.ReplaceAll(s, "\n", "\n  ")\<close>
  and \<^verbatim>\<open>strings.TrimRight(s, "\n")\<close>.
\<close>

fun fmt_d :: "nat \<Rightarrow> string" where
  "fmt_d n =
     (if n < 10 then [char_of (48 + n)]
      else fmt_d (n div 10) @ [char_of (48 + n mod 10)])"

declare fmt_d.simps [simp del]

definition ReplaceAll_newline :: "string \<Rightarrow> string" where
  "ReplaceAll_newline s =
     concat (map (\<lambda>c. if c = CHR 0x0A then [CHR 0x0A, CHR '' '', CHR '' ''] else [c]) s)"

definition TrimRight_newline :: "string \<Rightarrow> string" where
  "TrimRight_newline s = rev (dropWhile (\<lambda>c. c = CHR 0x0A) (rev s))"

text \<open>
  Three functions that \<^verbatim>\<open>String()\<close> calls are parameters: \<^verbatim>\<open>strconv.Quote\<close> of the
  standard library, and the renderings of a \<^verbatim>\<open>HoleType\<close> and of a \<^verbatim>\<open>Quantifier\<close> under
  the verb \<^verbatim>\<open>%s\<close>, which are declared with the two types outside type.go. They get
  their argument as a copy and are functions of it.
\<close>

record formatting =
  strconv_Quote :: "string \<Rightarrow> string"
  HoleType_String :: "HoleType \<Rightarrow> string"
  Quantifier_String :: "Quantifier \<Rightarrow> string"

text \<open>
  The body shared by \<^verbatim>\<open>PatternNode.String\<close> and \<^verbatim>\<open>BlockNode.String\<close>: the header
  line, the loop over the children that appends one indented line per child, and the
  trimming of the last newline. \<open>child_String\<close> is the call \<^verbatim>\<open>child.String()\<close>.
\<close>

definition children_String ::
  "(addr \<Rightarrow> string exec) \<Rightarrow> string \<Rightarrow> addr list \<Rightarrow> string exec" where
  "children_String child_String kind cs =
     exec_bind
       (exec_range
          (\<lambda>i child result.
             exec_bind (child_String child) (\<lambda>s.
               exec_return
                 (result @ ''  '' @ fmt_d i @ '': '' @ ReplaceAll_newline s @ [CHR 0x0A])))
          0 cs (kind @ ''('' @ fmt_d (length cs) @ '' children):'' @ [CHR 0x0A]))
       (\<lambda>result. exec_return (TrimRight_newline result))"

definition HoleNode_String :: "formatting \<Rightarrow> HoleConfig \<Rightarrow> string" where
  "HoleNode_String fmt c =
     (if HoleConfig.Type c = HoleAny \<and> Quantifier c = QuantNone
      then ''HoleNode('' @ Name c @ '')''
      else ''HoleNode('' @ Name c @ '':'' @ HoleType_String fmt (HoleConfig.Type c) @ '')''
             @ Quantifier_String fmt (Quantifier c))"

text \<open>
  \<^verbatim>\<open>TextNode.String\<close>: the slice \<^verbatim>\<open>escaped[1:len(escaped)-1]\<close> panics when the
  quoted string has fewer than two bytes.
\<close>

definition TextNode_String :: "formatting \<Rightarrow> string \<Rightarrow> panic + string" where
  "TextNode_String fmt c =
     (let escaped = strconv_Quote fmt c in
      if length escaped < 2 then Inl SliceBoundsOutOfRange
      else Inr (''TextNode('' @ take (length escaped - 2) (drop 1 escaped) @ '')''))"

text \<open>
  \<^verbatim>\<open>n.String()\<close> on an interface value. The recursion follows the pointers of the
  store, which may form a cycle, so it carries the depth of calls that the stack still
  allows; at depth 0 the call is the fatal stack overflow.
\<close>

primrec Node_String_st :: "formatting \<Rightarrow> nat \<Rightarrow> addr \<Rightarrow> string exec" where
  "Node_String_st fmt 0 n = exec_panic StackOverflow"
| "Node_String_st fmt (Suc depth) n =
     exec_bind (load n) (\<lambda>ob.
       case ob of
         PatternNodeObj cs _ \<Rightarrow> children_String (Node_String_st fmt depth) ''PatternNode'' cs
       | HoleNodeObj c _ \<Rightarrow> exec_return (HoleNode_String fmt c)
       | TextNodeObj c _ \<Rightarrow>
           (case TextNode_String fmt c of
              Inl e \<Rightarrow> exec_panic e
            | Inr s \<Rightarrow> exec_return s)
       | BlockNodeObj cs _ \<Rightarrow> children_String (Node_String_st fmt depth) ''BlockNode'' cs
       | _ \<Rightarrow> exec_panic NilDereference)"

subsection \<open>Stores that hold a tree\<close>

text \<open>The store \<open>s\<close> holds the tree \<open>n\<close> at the address \<open>a\<close>.\<close>

fun represents :: "store \<Rightarrow> addr \<Rightarrow> Node \<Rightarrow> bool"
  and represents_list :: "store \<Rightarrow> addr list \<Rightarrow> Node list \<Rightarrow> bool" where
  "represents s a (PatternNode ns p) =
     (case s a of
        Some (PatternNodeObj cs q) \<Rightarrow> q = p \<and> represents_list s cs ns
      | _ \<Rightarrow> False)"
| "represents s a (HoleNode c p) = (s a = Some (HoleNodeObj c p))"
| "represents s a (TextNode c p) = (s a = Some (TextNodeObj c p))"
| "represents s a (BlockNode ns p) =
     (case s a of
        Some (BlockNodeObj cs q) \<Rightarrow> q = p \<and> represents_list s cs ns
      | _ \<Rightarrow> False)"
| "represents_list s [] [] = True"
| "represents_list s (a # as) (n # ns) = (represents s a n \<and> represents_list s as ns)"
| "represents_list s _ _ = False"

text \<open>
  The pointer \<open>p\<close> of a token, nil or an address, leads in the store \<open>s\<close> to the
  configuration that the token on trees carries.
\<close>

fun points_to :: "store \<Rightarrow> addr option \<Rightarrow> HoleConfig option \<Rightarrow> bool" where
  "points_to s None None = True"
| "points_to s (Some a) (Some c) = (s a = Some (HoleConfigObj c))"
| "points_to s _ _ = False"

text \<open>The number of nested \<^verbatim>\<open>String()\<close> calls that a tree needs.\<close>

fun Node_height :: "Node \<Rightarrow> nat" and Node_height_list :: "Node list \<Rightarrow> nat" where
  "Node_height (PatternNode ns _) = Suc (Node_height_list ns)"
| "Node_height (HoleNode _ _) = 1"
| "Node_height (TextNode _ _) = 1"
| "Node_height (BlockNode ns _) = Suc (Node_height_list ns)"
| "Node_height_list [] = 0"
| "Node_height_list (n # ns) = max (Node_height n) (Node_height_list ns)"

text \<open>
  A store with the tree of a pattern "if", a hole \<open>cond\<close> and a block, and renderings
  to run \<^verbatim>\<open>String()\<close> with: quoting that only adds the two quotation marks, as
  \<^verbatim>\<open>strconv.Quote\<close> does on plain text.
\<close>

definition example_store :: store where
  "example_store =
     [0 \<mapsto> PatternNodeObj [1, 2, 3] 0,
      1 \<mapsto> TextNodeObj ''if '' 0,
      2 \<mapsto> HoleNodeObj \<lparr>HoleConfig.Type = HoleAny, Quantifier = QuantNone, Name = ''cond''\<rparr> 3,
      3 \<mapsto> BlockNodeObj [1] 10]"

definition example_formatting :: formatting where
  "example_formatting =
     \<lparr>strconv_Quote = (\<lambda>s. [CHR 0x22] @ s @ [CHR 0x22]),
      HoleType_String = (\<lambda>_. ''any''),
      Quantifier_String = (\<lambda>_. [])\<rparr>"

section \<open>Structural equality as the specification words it\<close>

text \<open>
  The specification's structural equality, written from its words and not from the code:
  "two nodes are equal if their kind and logical content match, regardless of where in
  the original text they appeared". The logical content of a hole is its configuration
  (compared as the specification says, on all three fields), that of a text node its
  string, that of a pattern or block its sequence of nodes, compared pairwise.
\<close>

fun spec_content_match :: "Node \<Rightarrow> Node \<Rightarrow> bool"
  and spec_content_match_list :: "Node list \<Rightarrow> Node list \<Rightarrow> bool" where
  "spec_content_match (PatternNode cs _) (PatternNode ds _) = spec_content_match_list cs ds"
| "spec_content_match (HoleNode c _) (HoleNode d _) = HoleConfig_Equal c d"
| "spec_content_match (TextNode s _) (TextNode t _) = (s = t)"
| "spec_content_match (BlockNode cs _) (BlockNode ds _) = spec_content_match_list cs ds"
| "spec_content_match _ _ = False"
| "spec_content_match_list [] [] = True"
| "spec_content_match_list (x # xs) (y # ys) =
     (spec_content_match x y \<and> spec_content_match_list xs ys)"
| "spec_content_match_list _ _ = False"

text \<open>The positions of the hole nodes of a tree, in the order of the pattern text.\<close>

fun hole_positions :: "Node \<Rightarrow> int list"
  and hole_positions_list :: "Node list \<Rightarrow> int list" where
  "hole_positions (PatternNode cs _) = hole_positions_list cs"
| "hole_positions (HoleNode _ p) = [p]"
| "hole_positions (TextNode _ _) = []"
| "hole_positions (BlockNode cs _) = hole_positions_list cs"
| "hole_positions_list [] = []"
| "hole_positions_list (x # xs) = hole_positions x @ hole_positions_list xs"

section \<open>Equality of hole configurations and of tokens\<close>

text \<open>
  C3. For every two hole configurations \<open>a\<close> and \<open>b\<close>, \<open>a.Equal(b)\<close> is true if and only
  if the three fields agree: the names, the types and the quantifiers.
\<close>

theorem HoleConfig_Equal_iff_fields:
  "HoleConfig_Equal a b =
     (Name a = Name b \<and> HoleConfig.Type a = HoleConfig.Type b \<and> Quantifier a = Quantifier b)"
  by (simp add: HoleConfig_Equal_def)

text \<open>
  C8. For every two tokens \<open>t\<close> and \<open>u\<close>, \<open>t.Equal(u)\<close> is true if and only if the
  types, the values and the positions agree and either both \<open>HoleConfig\<close> pointers are
  nil or both are non-nil and point to configurations that agree on name, type and
  quantifier. Consequently a token that carries a configuration is never equal to a token
  whose pointer is nil, in either order.
\<close>

theorem Token_Equal_iff:
  "Token_Equal t u =
     (Token.Type t = Token.Type u \<and> Value t = Value u \<and> Position t = Position u \<and>
      (case (HoleConfig t, HoleConfig u) of
         (None, None) \<Rightarrow> True
       | (Some a, Some b) \<Rightarrow>
           Name a = Name b \<and> HoleConfig.Type a = HoleConfig.Type b \<and>
           Quantifier a = Quantifier b
       | _ \<Rightarrow> False))
   \<and> (HoleConfig t \<noteq> None \<and> HoleConfig u = None \<longrightarrow>
        \<not> Token_Equal t u \<and> \<not> Token_Equal u t)"
  by (auto simp: Token_Equal_def HoleConfig_Equal_def split: option.splits)

theorem Token_Equal_iff_witness:
  "HoleConfig \<lparr>Token.Type = TokenHole, Value = '':[x]'', Position = 0,
      HoleConfig = Some \<lparr>HoleConfig.Type = HoleAny, Quantifier = QuantNone, Name = ''x''\<rparr>\<rparr>
     \<noteq> None
   \<and> HoleConfig \<lparr>Token.Type = TokenHole, Value = '':[x]'', Position = 0, HoleConfig = None\<rparr>
     = None
   \<and> \<not> Token_Equal
        \<lparr>Token.Type = TokenHole, Value = '':[x]'', Position = 0,
          HoleConfig = Some \<lparr>HoleConfig.Type = HoleAny, Quantifier = QuantNone, Name = ''x''\<rparr>\<rparr>
        \<lparr>Token.Type = TokenHole, Value = '':[x]'', Position = 0, HoleConfig = None\<rparr>"
  using Token_Equal_iff
    [of "\<lparr>Token.Type = TokenHole, Value = '':[x]'', Position = 0,
          HoleConfig = Some \<lparr>HoleConfig.Type = HoleAny, Quantifier = QuantNone, Name = ''x''\<rparr>\<rparr>"
        "\<lparr>Token.Type = TokenHole, Value = '':[x]'', Position = 0, HoleConfig = None\<rparr>"]
  by simp

section \<open>Construction of hole nodes\<close>

text \<open>
  C5. For every name and position, \<open>NewHoleNode(name, pos)\<close> is a hole node at that
  position whose configuration has the given name, the any-span capture kind \<open>HoleAny\<close>
  and the exactly-one quantifier \<open>QuantNone\<close>.
\<close>

theorem NewHoleNode_default_config:
  "Node_Type (NewHoleNode name p) = NodeHole
   \<and> Name (Config (NewHoleNode name p)) = name
   \<and> HoleConfig.Type (Config (NewHoleNode name p)) = HoleAny
   \<and> Quantifier (Config (NewHoleNode name p)) = QuantNone
   \<and> Node_Position (NewHoleNode name p) = p"
  by (simp add: NewHoleNode_def Node_Position_def)

section \<open>Equality of nodes\<close>

text \<open>
  \<open>Equal\<close> on two nodes never panics, and it is true exactly for two patterns, two
  blocks, two text nodes with the same content, and two hole nodes with the same
  configuration and position.
\<close>

lemma Node_Equal_total: "\<exists>r. Node_Equal a b = Inr r"
  by (cases a; cases b) (auto simp: TextNode_Equal_def)

lemma Node_Equal_True_iff:
  "Node_Equal a b = Inr True \<longleftrightarrow>
     (case (a, b) of
        (PatternNode _ _, PatternNode _ _) \<Rightarrow> True
      | (HoleNode c p, HoleNode d q) \<Rightarrow> c = d \<and> p = q
      | (TextNode s _, TextNode t _) \<Rightarrow> s = t
      | (BlockNode _ _, BlockNode _ _) \<Rightarrow> True
      | _ \<Rightarrow> False)"
  by (cases a; cases b)
     (auto simp: PatternNode_Equal_def HoleNode_Equal_def TextNode_Equal_def
        BlockNode_Equal_def)

text \<open>
  C10. \<open>TextNode.Equal\<close> returns a truth value for every node given as argument: the
  panicking assertion \<open>other.(*TextNode)\<close> is guarded by \<open>other.Type() != NodeText\<close>,
  and among the four variants only a text node reports \<open>NodeText\<close>, so the assertion is
  reached with a text node only and never fails.
\<close>

theorem TextNode_Equal_never_panics:
  "(\<exists>r. TextNode_Equal c p other = Inr r)
   \<and> TextNode_Equal c p other \<noteq> Inl InterfaceConversion
   \<and> (Node_Type other = NodeText) = (\<exists>d q. other = TextNode d q)"
  by (cases other) (auto simp: TextNode_Equal_def)

lemmas Equal_defs =
  PatternNode_Equal_def HoleNode_Equal_def TextNode_Equal_def BlockNode_Equal_def

text \<open>
  What \<open>nodesEqual\<close> computes: it never panics, the index \<open>b[i]\<close> being in range
  after the length check, and it is true exactly for two sequences of the same length
  whose nodes are \<open>Equal\<close> pairwise.
\<close>

lemma nodesEqual_loop_list_all2:
  "length a = length b \<Longrightarrow>
     nodesEqual_loop a b = Inr (list_all2 (\<lambda>x y. Node_Equal x y = Inr True) a b)"
proof (induction a b rule: list_induct2)
  case Nil
  show ?case by simp
next
  case (Cons x xs y ys)
  obtain r where r: "Node_Equal x y = Inr r"
    using Node_Equal_total by blast
  with Cons.IH show ?case by (cases r) simp_all
qed

lemma nodesEqual_list_all2:
  "nodesEqual a b = Inr (list_all2 (\<lambda>x y. Node_Equal x y = Inr True) a b)"
proof (cases "length a = length b")
  case True
  then show ?thesis by (simp add: nodesEqual_def nodesEqual_loop_list_all2)
next
  case False
  then have "\<not> list_all2 (\<lambda>x y. Node_Equal x y = Inr True) a b"
    by (auto dest: list_all2_lengthD)
  with False show ?thesis by (simp add: nodesEqual_def)
qed

text \<open>
  Two nodes that are \<open>Equal\<close> have the same kind, and when the receiver is a hole or a
  text node their logical content matches as the specification words it.
\<close>

lemma Node_Equal_same_kind:
  "Node_Equal a b = Inr True \<Longrightarrow> Node_Type a = Node_Type b"
  by (cases a; cases b) (simp_all add: Equal_defs)

lemma Node_Equal_leaf_content:
  "Node_Equal a b = Inr True \<Longrightarrow> Node_Type a = NodeHole \<or> Node_Type a = NodeText \<Longrightarrow>
     spec_content_match a b"
  by (cases a; cases b) (simp_all add: Equal_defs HoleConfig_Equal_def)

text \<open>
  C1, as amended. Equality ignores the position of every node but a hole node: two nodes
  whose kind and logical content match and whose hole nodes stand at the same positions
  are \<open>Equal\<close>, whatever the positions of their other nodes. In particular two text
  nodes with the same content are \<open>Equal\<close> at any two positions, whereas two hole nodes
  with the same configuration are \<open>Equal\<close> if and only if their positions are equal.
\<close>

theorem Node_Equal_ignores_position_but_of_holes:
  "(spec_content_match a b \<and> hole_positions a = hole_positions b \<longrightarrow>
      Node_Equal a b = Inr True)
   \<and> Node_Equal (TextNode s p) (TextNode s q) = Inr True
   \<and> Node_Equal (HoleNode c p) (HoleNode c q) = Inr (p = q)"
  by (cases a; cases b)
     (auto simp: Equal_defs HoleConfig_Equal_def)

theorem Node_Equal_ignores_position_but_of_holes_witness:
  "spec_content_match
     (PatternNode [TextNode ''if '' 0, NewHoleNode ''cond'' 3] 0)
     (PatternNode [TextNode ''if '' 4, NewHoleNode ''cond'' 3] 9)
   \<and> hole_positions (PatternNode [TextNode ''if '' 0, NewHoleNode ''cond'' 3] 0)
     = hole_positions (PatternNode [TextNode ''if '' 4, NewHoleNode ''cond'' 3] 9)
   \<and> Node_Equal
       (PatternNode [TextNode ''if '' 0, NewHoleNode ''cond'' 3] 0)
       (PatternNode [TextNode ''if '' 4, NewHoleNode ''cond'' 3] 9) = Inr True"
  using Node_Equal_ignores_position_but_of_holes
    [of "PatternNode [TextNode ''if '' 0, NewHoleNode ''cond'' 3] 0"
        "PatternNode [TextNode ''if '' 4, NewHoleNode ''cond'' 3] 9"]
  by (simp add: NewHoleNode_def HoleConfig_Equal_def)

text \<open>
  C1, as stated, fails: two hole nodes built with the same name, hence with equal
  configurations, match in kind and logical content, and are not \<open>Equal\<close> when their
  positions differ.
\<close>

theorem HoleNode_Equal_position_counterexample:
  "spec_content_match (NewHoleNode ''x'' 0) (NewHoleNode ''x'' 7)
   \<and> Node_Equal (NewHoleNode ''x'' 0) (NewHoleNode ''x'' 7) = Inr False"
  by (simp add: NewHoleNode_def HoleConfig_Equal_def HoleNode_Equal_def)

text \<open>
  C2. The claim is that two nodes are \<open>Equal\<close> only if their kind and logical content
  match, a pattern only if the children are pairwise equal, a block only if its content
  is. The code at two patterns, and at two blocks, whose only child differs: they are
  \<open>Equal\<close>, while \<open>nodesEqual\<close> on their children is false and their content does not
  match.
\<close>

theorem PatternNode_Equal_ignores_Children:
  "Node_Equal (PatternNode [TextNode ''a'' 0] 0) (PatternNode [TextNode ''b'' 0] 0) = Inr True
   \<and> nodesEqual [TextNode ''a'' 0] [TextNode ''b'' 0] = Inr False
   \<and> \<not> spec_content_match
         (PatternNode [TextNode ''a'' 0] 0) (PatternNode [TextNode ''b'' 0] 0)
   \<and> Node_Equal (BlockNode [TextNode ''a'' 0] 0) (BlockNode [TextNode ''b'' 0] 0) = Inr True
   \<and> \<not> spec_content_match
         (BlockNode [TextNode ''a'' 0] 0) (BlockNode [TextNode ''b'' 0] 0)"
  by (simp add: PatternNode_Equal_def BlockNode_Equal_def nodesEqual_def TextNode_Equal_def)

text \<open>
  C4, as amended. Equality of text nodes is exact on the content: a text node is
  \<open>Equal\<close> to another one if and only if the two strings are identical, whatever the
  positions. No whitespace is collapsed.
\<close>

theorem TextNode_Equal_exact:
  "Node_Equal (TextNode c p) (TextNode d q) = Inr (c = d)"
  by (simp add: TextNode_Equal_def)

text \<open>
  C4, as stated, fails: the text node holding "a  b", with two spaces, is not \<open>Equal\<close>
  to the text node holding "a b".
\<close>

theorem TextNode_Equal_whitespace_counterexample:
  "Node_Equal (TextNode ''a  b'' 0) (TextNode ''a b'' 0) = Inr False"
  by (simp add: TextNode_Equal_def)

text \<open>
  C9. On the four node variants \<open>Equal\<close> is an equivalence relation: every node is
  \<open>Equal\<close> to itself; \<open>a.Equal(b)\<close> and \<open>b.Equal(a)\<close> return the same; and if
  \<open>a.Equal(b)\<close> and \<open>b.Equal(c)\<close> then \<open>a.Equal(c)\<close>.
\<close>

theorem Node_Equal_equivalence:
  "Node_Equal a a = Inr True
   \<and> Node_Equal a b = Node_Equal b a
   \<and> (Node_Equal a b = Inr True \<and> Node_Equal b c = Inr True \<longrightarrow>
        Node_Equal a c = Inr True)"
proof (intro conjI impI)
  show "Node_Equal a a = Inr True"
    by (cases a) (simp_all add: Equal_defs)
  show "Node_Equal a b = Node_Equal b a"
    by (cases a; cases b) (auto simp: Equal_defs)
  assume "Node_Equal a b = Inr True \<and> Node_Equal b c = Inr True"
  then show "Node_Equal a c = Inr True"
    by (cases a; cases b; cases c) (auto simp: Equal_defs split: if_splits)
qed

theorem Node_Equal_equivalence_witness:
  "Node_Equal (TextNode ''a'' 0) (TextNode ''a'' 2) = Inr True
   \<and> Node_Equal (TextNode ''a'' 2) (TextNode ''a'' 5) = Inr True
   \<and> Node_Equal (TextNode ''a'' 0) (TextNode ''a'' 5) = Inr True"
  using Node_Equal_equivalence
    [of "TextNode ''a'' 0" "TextNode ''a'' 2" "TextNode ''a'' 5"]
  by (simp add: TextNode_Equal_def)

section \<open>The methods leave the store as they found it\<close>

text \<open>The building blocks of a call leave the store unchanged.\<close>

lemma snd_exec_return: "snd (exec_return x s) = s"
  by (simp add: exec_return_def)

lemma snd_exec_panic: "snd (exec_panic e s) = s"
  by (simp add: exec_panic_def)

lemma snd_load: "snd (load a s) = s"
  by (simp add: load_def split: option.split)

lemma snd_exec_bind:
  assumes "\<And>s. snd (m s) = s" and "\<And>x s. snd (f x s) = s"
  shows "snd (exec_bind m f s) = s"
proof (cases "m s")
  case (Pair r s')
  with assms(1)[of s] have "s' = s" by simp
  with Pair assms(2) show ?thesis
    by (cases r) (simp_all add: exec_bind_def)
qed

lemma snd_exec_range:
  assumes "\<And>i x acc s. snd (body i x acc s) = s"
  shows "snd (exec_range body i xs acc s) = s"
proof (induction xs arbitrary: i acc s)
  case Nil
  show ?case by (simp add: snd_exec_return)
next
  case (Cons x xs)
  show ?case
    by (simp, rule snd_exec_bind, rule assms, rule Cons.IH)
qed

lemmas snd_exec = snd_exec_return snd_exec_panic snd_load

lemma snd_HoleConfig_Equal_st: "snd (HoleConfig_Equal_st h other s) = s"
  unfolding HoleConfig_Equal_st_def
  by (rule snd_exec_bind, rule snd_load) (simp add: snd_exec split: object.split)

lemma snd_Token_Equal_st:
  "snd (Token_Equal_st t o_Type o_Value o_Position o_HoleConfig s) = s"
  unfolding Token_Equal_st_def
proof (rule snd_exec_bind, rule snd_load)
  fix ob s
  have deref: "snd (exec_bind (load a) (\<lambda>oc.
                  case oc of
                    HoleConfigObj c \<Rightarrow> HoleConfig_Equal_st b c
                  | _ \<Rightarrow> exec_panic NilDereference) s) = s" for a b
    by (rule snd_exec_bind, rule snd_load)
       (simp add: snd_exec snd_HoleConfig_Equal_st split: object.split)
  show "snd ((case ob of
         TokenObj t_Type t_Value t_Position t_HoleConfig \<Rightarrow>
           if t_Type \<noteq> o_Type \<or> t_Value \<noteq> o_Value \<or> t_Position \<noteq> o_Position
           then exec_return False
           else if t_HoleConfig = None \<and> o_HoleConfig = None then exec_return True
           else if t_HoleConfig = None \<or> o_HoleConfig = None then exec_return False
           else exec_bind (load (the o_HoleConfig)) (\<lambda>oc.
                  case oc of
                    HoleConfigObj c \<Rightarrow> HoleConfig_Equal_st (the t_HoleConfig) c
                  | _ \<Rightarrow> exec_panic NilDereference)
       | _ \<Rightarrow> exec_panic NilDereference) s) = s"
    by (cases ob) (simp_all add: snd_exec deref)
qed

lemma snd_Node_Type_st: "snd (Node_Type_st n s) = s"
  unfolding Node_Type_st_def
  by (rule snd_exec_bind, rule snd_load) (simp add: snd_exec split: object.split)

lemma snd_Node_Position_st: "snd (Node_Position_st n s) = s"
  unfolding Node_Position_st_def
  by (rule snd_exec_bind, rule snd_load) (simp add: snd_exec split: object.split)

lemma snd_HoleNode_Name_st: "snd (HoleNode_Name_st h s) = s"
  unfolding HoleNode_Name_st_def
  by (rule snd_exec_bind, rule snd_load) (simp add: snd_exec split: object.split)

lemma snd_PatternNode_Equal_st: "snd (PatternNode_Equal_st p other s) = s"
  unfolding PatternNode_Equal_st_def
  by (rule snd_exec_bind, rule snd_load) (simp add: snd_exec)

lemma snd_BlockNode_Equal_st: "snd (BlockNode_Equal_st b other s) = s"
  unfolding BlockNode_Equal_st_def
  by (rule snd_exec_bind, rule snd_load) (simp add: snd_exec)

lemma snd_HoleNode_Equal_st: "snd (HoleNode_Equal_st h other s) = s"
  unfolding HoleNode_Equal_st_def
proof (rule snd_exec_bind, rule snd_load)
  fix ob s
  have receiver: "snd (exec_bind (load h) (\<lambda>hb.
             case hb of
               HoleNodeObj h_Config h_pos \<Rightarrow> exec_return (P h_Config h_pos)
             | _ \<Rightarrow> exec_panic NilDereference) s) = s" for P
    by (rule snd_exec_bind, rule snd_load) (simp add: snd_exec split: object.split)
  show "snd ((case ob of
         HoleNodeObj o_Config o_pos \<Rightarrow>
           exec_bind (load h) (\<lambda>hb.
             case hb of
               HoleNodeObj h_Config h_pos \<Rightarrow>
                 exec_return
                   (Name h_Config = Name o_Config \<and>
                    HoleConfig.Type h_Config = HoleConfig.Type o_Config \<and>
                    Quantifier h_Config = Quantifier o_Config \<and>
                    h_pos = o_pos)
             | _ \<Rightarrow> exec_panic NilDereference)
       | _ \<Rightarrow> exec_return False) s) = s"
    by (cases ob) (simp_all add: snd_exec receiver)
qed

lemma snd_TextNode_Equal_st: "snd (TextNode_Equal_st t other s) = s"
  unfolding TextNode_Equal_st_def
proof (rule snd_exec_bind, rule snd_Node_Type_st)
  fix ty s
  have argument: "snd (exec_bind (load other) (\<lambda>ob.
               case ob of
                 TextNodeObj o_Content _ \<Rightarrow> exec_return (c = o_Content)
               | _ \<Rightarrow> exec_panic InterfaceConversion) s) = s" for c s
    by (rule snd_exec_bind, rule snd_load) (simp add: snd_exec split: object.split)
  have receiver: "snd (exec_bind (load t) (\<lambda>tb.
         case tb of
           TextNodeObj t_Content _ \<Rightarrow>
             exec_bind (load other) (\<lambda>ob.
               case ob of
                 TextNodeObj o_Content _ \<Rightarrow> exec_return (t_Content = o_Content)
               | _ \<Rightarrow> exec_panic InterfaceConversion)
         | _ \<Rightarrow> exec_panic NilDereference) s) = s"
    by (rule snd_exec_bind, rule snd_load) (simp add: snd_exec argument split: object.split)
  show "snd ((if ty \<noteq> NodeText then exec_return False
       else exec_bind (load t) (\<lambda>tb.
         case tb of
           TextNodeObj t_Content _ \<Rightarrow>
             exec_bind (load other) (\<lambda>ob.
               case ob of
                 TextNodeObj o_Content _ \<Rightarrow> exec_return (t_Content = o_Content)
               | _ \<Rightarrow> exec_panic InterfaceConversion)
         | _ \<Rightarrow> exec_panic NilDereference)) s) = s"
    using receiver by (simp add: snd_exec)
qed

lemma snd_Node_Equal_st: "snd (Node_Equal_st n other s) = s"
  unfolding Node_Equal_st_def
  by (rule snd_exec_bind, rule snd_load)
     (simp add: snd_exec snd_PatternNode_Equal_st snd_HoleNode_Equal_st
        snd_TextNode_Equal_st snd_BlockNode_Equal_st split: object.split)

lemma snd_children_String:
  assumes "\<And>c s. snd (child_String c s) = s"
  shows "snd (children_String child_String kind cs s) = s"
  unfolding children_String_def
  by (intro snd_exec_bind snd_exec_range snd_exec_return assms)

lemma snd_Node_String_st: "snd (Node_String_st fmt depth n s) = s"
proof (induction depth arbitrary: n s)
  case 0
  show ?case by (simp add: snd_exec)
next
  case (Suc depth)
  have "snd ((case ob of
         PatternNodeObj cs _ \<Rightarrow> children_String (Node_String_st fmt depth) ''PatternNode'' cs
       | HoleNodeObj c _ \<Rightarrow> exec_return (HoleNode_String fmt c)
       | TextNodeObj c _ \<Rightarrow>
           (case TextNode_String fmt c of
              Inl e \<Rightarrow> exec_panic e
            | Inr s \<Rightarrow> exec_return s)
       | BlockNodeObj cs _ \<Rightarrow> children_String (Node_String_st fmt depth) ''BlockNode'' cs
       | _ \<Rightarrow> exec_panic NilDereference) s) = s" for ob s
    by (cases ob) (simp_all add: snd_exec snd_children_String Suc.IH split: sum.split)
  then show ?case
    by (simp only: Node_String_st.simps) (rule snd_exec_bind, rule snd_load)
qed

subsection \<open>Agreement with the methods on trees\<close>

text \<open>
  On a store that holds two trees, the methods over the store return what the methods
  on the trees return.
\<close>

lemmas exec_defs = exec_bind_def exec_return_def exec_panic_def load_def

lemma HoleConfig_Equal_st_represents:
  "s h = Some (HoleConfigObj c) \<Longrightarrow>
     HoleConfig_Equal_st h other s = (Inr (HoleConfig_Equal c other), s)"
  by (simp add: HoleConfig_Equal_st_def HoleConfig_Equal_def exec_defs)

lemma Token_Equal_st_represents:
  assumes "s t = Some (TokenObj t_Type t_Value t_Position t_ptr)"
    and "points_to s t_ptr t_HoleConfig"
    and "points_to s o_ptr o_HoleConfig"
  shows "Token_Equal_st t o_Type o_Value o_Position o_ptr s =
     (Inr (Token_Equal
        \<lparr>Token.Type = t_Type, Value = t_Value, Position = t_Position,
          HoleConfig = t_HoleConfig\<rparr>
        \<lparr>Token.Type = o_Type, Value = o_Value, Position = o_Position,
          HoleConfig = o_HoleConfig\<rparr>), s)"
  using assms
  by (cases t_ptr; cases t_HoleConfig; cases o_ptr; cases o_HoleConfig)
     (auto simp: Token_Equal_st_def Token_Equal_def HoleConfig_Equal_st_def
        HoleConfig_Equal_def exec_defs)

lemma Node_Type_st_represents:
  "represents s a n \<Longrightarrow> Node_Type_st a s = (Inr (Node_Type n), s)"
  by (cases n)
     (auto simp: Node_Type_st_def exec_defs split: option.splits object.splits)

lemma Node_Position_st_represents:
  "represents s a n \<Longrightarrow> Node_Position_st a s = (Inr (Node_Position n), s)"
  by (cases n)
     (auto simp: Node_Position_st_def Node_Position_def exec_defs
        split: option.splits object.splits)

lemma HoleNode_Name_st_represents:
  "represents s a (HoleNode c p) \<Longrightarrow> HoleNode_Name_st a s = (Inr (HoleNode_Name c p), s)"
  by (simp add: HoleNode_Name_st_def HoleNode_Name_def exec_defs)

lemma Node_Equal_st_represents:
  "represents s a n \<Longrightarrow> represents s b m \<Longrightarrow> Node_Equal_st a b s = (Node_Equal n m, s)"
  by (cases n; cases m)
     (auto simp: Node_Equal_st_def PatternNode_Equal_st_def HoleNode_Equal_st_def
        TextNode_Equal_st_def BlockNode_Equal_st_def Node_Type_st_def Equal_defs exec_defs
        split: option.splits object.splits)

text \<open>
  The assertion \<open>other.(*TextNode)\<close> does not fail on any store either, whatever the
  two addresses hold.
\<close>

lemma TextNode_Equal_st_no_InterfaceConversion:
  "fst (TextNode_Equal_st t other s) \<noteq> Inl InterfaceConversion"
  by (auto simp: TextNode_Equal_st_def Node_Type_st_def exec_defs
      split: option.splits object.splits)

subsection \<open>String returns on a tree\<close>

text \<open>
  When the quoted string always has its two quotation marks, \<open>String()\<close> on a store
  that holds a tree returns a string as soon as the stack allows as many nested calls as
  the tree is high.
\<close>

lemma exec_range_returns:
  assumes "\<And>i x acc. x \<in> set xs \<Longrightarrow> \<exists>r. body i x acc s = (Inr r, s)"
  shows "\<exists>r. exec_range body i xs acc s = (Inr r, s)"
  using assms
proof (induction xs arbitrary: i acc)
  case Nil
  show ?case by (simp add: exec_return_def)
next
  case (Cons x xs)
  have "\<exists>r. body i x acc s = (Inr r, s)" by (rule Cons.prems) simp
  then obtain r where r: "body i x acc s = (Inr r, s)" ..
  have "\<exists>r'. exec_range body (Suc i) xs r s = (Inr r', s)"
    by (rule Cons.IH) (rule Cons.prems, simp)
  then obtain r' where "exec_range body (Suc i) xs r s = (Inr r', s)" ..
  with r show ?case by (simp add: exec_bind_def)
qed

lemma represents_list_member:
  "represents_list s cs ns \<Longrightarrow> c \<in> set cs \<Longrightarrow>
     \<exists>n. represents s c n \<and> Node_height n \<le> Node_height_list ns"
proof (induction cs arbitrary: ns)
  case Nil
  then show ?case by simp
next
  case (Cons a cs)
  then obtain n ns' where ns: "ns = n # ns'" by (cases ns) auto
  show ?case
  proof (cases "c = a")
    case True
    with Cons.prems ns show ?thesis by auto
  next
    case False
    with Cons.prems ns have "represents_list s cs ns'" "c \<in> set cs" by auto
    from Cons.IH[OF this] obtain m
      where "represents s c m" "Node_height m \<le> Node_height_list ns'" by blast
    with ns show ?thesis by (intro exI[of _ m]) simp
  qed
qed

lemma children_String_returns:
  assumes "\<And>c. c \<in> set cs \<Longrightarrow> \<exists>r. child_String c s = (Inr r, s)"
  shows "\<exists>r. children_String child_String kind cs s = (Inr r, s)"
proof -
  let ?body = "\<lambda>i child result.
             exec_bind (child_String child) (\<lambda>s.
               exec_return
                 (result @ ''  '' @ fmt_d i @ '': '' @ ReplaceAll_newline s @ [CHR 0x0A]))"
  let ?init = "kind @ ''('' @ fmt_d (length cs) @ '' children):'' @ [CHR 0x0A]"
  have "\<exists>r. ?body i x acc s = (Inr r, s)" if "x \<in> set cs" for i x acc
  proof -
    from assms[OF that] obtain r where "child_String x s = (Inr r, s)" ..
    then show ?thesis by (simp add: exec_bind_def exec_return_def)
  qed
  then have "\<exists>r. exec_range ?body 0 cs ?init s = (Inr r, s)"
    by (rule exec_range_returns)
  then obtain r where "exec_range ?body 0 cs ?init s = (Inr r, s)" ..
  then show ?thesis
    unfolding children_String_def by (simp add: exec_bind_def exec_return_def)
qed

lemma Node_String_st_returns:
  assumes q: "\<And>x. 2 \<le> length (strconv_Quote fmt x)"
  shows "represents s a n \<Longrightarrow> Node_height n \<le> depth \<Longrightarrow>
           \<exists>str. Node_String_st fmt depth a s = (Inr str, s)"
proof (induction depth arbitrary: a n)
  case 0
  then show ?case by (cases n) simp_all
next
  case (Suc depth)
  have kids: "\<exists>r. children_String (Node_String_st fmt depth) kind cs s = (Inr r, s)"
    if cs: "represents_list s cs ns" and h: "Node_height_list ns \<le> depth" for cs ns kind
  proof (rule children_String_returns)
    fix c assume "c \<in> set cs"
    from represents_list_member[OF cs this] obtain m
      where m: "represents s c m" "Node_height m \<le> Node_height_list ns" by blast
    with h have "Node_height m \<le> depth" by simp
    with m(1) show "\<exists>r. Node_String_st fmt depth c s = (Inr r, s)" by (rule Suc.IH)
  qed
  show ?case
  proof (cases n)
    case (PatternNode ns p)
    with Suc.prems obtain cs where a: "s a = Some (PatternNodeObj cs p)"
      and cs: "represents_list s cs ns" and h: "Node_height_list ns \<le> depth"
      by (auto split: option.splits object.splits)
    from kids[OF cs h] a show ?thesis by (simp add: exec_bind_def load_def)
  next
    case (HoleNode c p)
    with Suc.prems show ?thesis by (simp add: exec_bind_def load_def exec_return_def)
  next
    case (TextNode c p)
    with Suc.prems q[of c] show ?thesis
      by (simp add: exec_bind_def load_def exec_return_def TextNode_String_def Let_def)
  next
    case (BlockNode ns p)
    with Suc.prems obtain cs where a: "s a = Some (BlockNodeObj cs p)"
      and cs: "represents_list s cs ns" and h: "Node_height_list ns \<le> depth"
      by (auto split: option.splits object.splits)
    from kids[OF cs h] a show ?thesis by (simp add: exec_bind_def load_def)
  qed
qed

text \<open>The example store holds a tree, and the methods return on it.\<close>

lemma example_store_represents:
  "represents example_store 0
     (PatternNode
        [TextNode ''if '' 0, NewHoleNode ''cond'' 3, BlockNode [TextNode ''if '' 0] 10] 0)"
  by (simp add: example_store_def NewHoleNode_def)

lemma example_String:
  "fst (Node_String_st example_formatting 3 0 example_store) =
     Inr ''PatternNode(3 children):\<newline>  0: TextNode(if )\<newline>  1: HoleNode(cond)\<newline>  2: BlockNode(1 children):\<newline>    0: TextNode(if )''"
  by code_simp

lemma example_Equal:
  "fst (Node_Equal_st 1 1 example_store) = Inr True"
  "fst (Node_Equal_st 0 3 example_store) = Inr False"
  by code_simp+

text \<open>
  C6. Tokens and nodes are immutable under every method of the file: a call of
  \<open>Equal\<close> on a token or on a hole configuration, and a call of \<open>Equal\<close>, \<open>String\<close>,
  \<open>Position\<close>, \<open>Type\<close> or \<open>Name\<close> on a node, leaves behind the store it started from,
  whether it returns or panics. So every field of the receiver, of the argument and of
  every other token and node is the same before and after the call.
\<close>

theorem methods_leave_store_unchanged:
  "snd (Token_Equal_st t o_Type o_Value o_Position o_HoleConfig s) = s
   \<and> snd (HoleConfig_Equal_st h c s) = s
   \<and> snd (Node_Equal_st n other s) = s
   \<and> snd (Node_String_st fmt depth n s) = s
   \<and> snd (Node_Position_st n s) = s
   \<and> snd (Node_Type_st n s) = s
   \<and> snd (HoleNode_Name_st n s) = s"
  by (simp add: snd_Token_Equal_st snd_HoleConfig_Equal_st snd_Node_Equal_st
      snd_Node_String_st snd_Node_Position_st snd_Node_Type_st snd_HoleNode_Name_st)

theorem methods_leave_store_unchanged_witness:
  "Node_String_st example_formatting 3 0 example_store =
     (Inr ''PatternNode(3 children):\<newline>  0: TextNode(if )\<newline>  1: HoleNode(cond)\<newline>  2: BlockNode(1 children):\<newline>    0: TextNode(if )'',
      example_store)
   \<and> Node_Equal_st 1 1 example_store = (Inr True, example_store)
   \<and> Node_Equal_st 0 3 example_store = (Inr False, example_store)"
proof -
  have "snd (Node_String_st example_formatting 3 0 example_store) = example_store"
    and "snd (Node_Equal_st 1 1 example_store) = example_store"
    and "snd (Node_Equal_st 0 3 example_store) = example_store"
    using methods_leave_store_unchanged [where s = example_store] by blast+
  with example_String example_Equal show ?thesis
    by (simp only: prod_eq_iff fst_conv snd_conv simp_thms)
qed

end
